theory Spec2Isabelle
  imports Main "HOL-Library.Char_ord" "HOL-Library.List_Lexorder" "HOL-Library.AList"
    "HOL-Library.Multiset"
begin

section \<open>Conventions\<close>

text \<open>
  The development embeds \<^verbatim>\<open>find_conversations.py\<close>. A Python \<^verbatim>\<open>str\<close> is a
  \<^typ>\<open>string\<close>; the characters are bytes, so the model is exact for ASCII text (Python
  counts code points, and its \<^verbatim>\<open>strip\<close>, \<^verbatim>\<open>lower\<close> and
  \<^verbatim>\<open>splitlines\<close> know more characters than the ASCII ones). Strings are compared as
  Python compares them, lexicographically by character code.

  A JSON object is a record whose fields are options: \<open>None\<close> is a key that is absent.
  Where the source reads a key only through \<^verbatim>\<open>.get\<close> and truthiness, \<open>None\<close> stands
  for a JSON \<^verbatim>\<open>null\<close> as well, since the source cannot tell them apart. Where the source
  tests a key with \<^verbatim>\<open>in\<close> (\<^verbatim>\<open>message\<close>, \<^verbatim>\<open>sessionId\<close>, \<^verbatim>\<open>cwd\<close>, \<^verbatim>\<open>timestamp\<close>),
  \<open>None\<close> is the absent key only. Values of another JSON type than the one the source expects
  (a number as a timestamp, a list as an id, a line that is not a JSON object) are outside
  the input type.

  A function that may run forever returns an option, \<open>None\<close> for a run that never ends; a
  function that an exception may leave returns a sum, \<open>Inl\<close> the exception.
\<close>

definition get_str :: "string option \<Rightarrow> string" where
  \<comment> \<open>\<^verbatim>\<open>d.get(k, '')\<close>\<close>
  "get_str v = (case v of None \<Rightarrow> [] | Some s \<Rightarrow> s)"

definition truthy :: "string option \<Rightarrow> bool" where
  \<comment> \<open>\<^verbatim>\<open>if d.get(k):\<close> for a string value: present and not empty\<close>
  "truthy v = (get_str v \<noteq> [])"

section \<open>The data model: raw records\<close>

record option_rec =
  label :: "string option"
  opt_description :: "string option"

record question_rec =
  question :: "string option"
  options :: "option_rec list option"

record tool_input =
  file_path :: "string option"
  query :: "string option"
  url :: "string option"
  description :: "string option"
  command :: "string option"
  pattern :: "string option"
  inp_content :: "string option"
  questions :: "question_rec list option"

datatype result_part = RNonDict | RDict (rtype: "string option") (rtext: "string option")

datatype result_content = RStr string | RList "result_part list" | ROther

record part_dict =
  type :: "string option"
  ptext :: "string option"
  name :: "string option"
  tool_id :: "string option"
  input :: "tool_input option"
  tool_use_id :: "string option"
  result :: "result_content option"

datatype part = NonDict | Dict part_dict

datatype content = CStr string | CList "part list" | COther bool

record message_rec =
  role :: "string option"
  content :: "content option"

record raw_record =
  uuid :: "string option"
  parentUuid :: "string option"
  timestamp :: "string option"
  sessionId :: "string option"
  cwd :: "string option"
  isMeta :: bool
  requestId :: "string option"
  message :: "message_rec option"

section \<open>The winning-path resolver\<close>

definition by_uuid_of :: "raw_record list \<Rightarrow> (string \<times> raw_record) list" where
  \<comment> \<open>\<^verbatim>\<open>{r['uuid']: r for r in all_records if r.get('uuid')}\<close>: a later record replaces
     an earlier one of the same id\<close>
  "by_uuid_of all_records =
     fold (\<lambda>r d. if truthy (uuid r) then AList.update (get_str (uuid r)) r d else d)
       all_records []"

definition parent_uuids_of :: "raw_record list \<Rightarrow> string set" where
  "parent_uuids_of all_records =
     set (map (\<lambda>r. get_str (parentUuid r)) (filter (\<lambda>r. truthy (parentUuid r)) all_records))"

definition terminals_of :: "raw_record list \<Rightarrow> raw_record list" where
  "terminals_of all_records =
     filter (\<lambda>r. truthy (uuid r) \<and> get_str (uuid r) \<notin> parent_uuids_of all_records)
       all_records"

definition timestamp_key :: "raw_record \<Rightarrow> string" where
  \<comment> \<open>the sort key \<^verbatim>\<open>r.get('timestamp', '')\<close>\<close>
  "timestamp_key r = get_str (timestamp r)"

partial_function (option)
  walk_back :: "(string \<times> raw_record) list \<Rightarrow> string set \<Rightarrow> string option \<Rightarrow> string set option"
where
  "walk_back by_uuid winning_uuids current =
     (if truthy current then
        (case map_of by_uuid (get_str current) of
           None \<Rightarrow> Some (insert (get_str current) winning_uuids)
         | Some rec \<Rightarrow>
             walk_back by_uuid (insert (get_str current) winning_uuids) (parentUuid rec))
      else Some winning_uuids)"

declare walk_back.simps [code]

definition latest_terminal_of :: "raw_record list \<Rightarrow> raw_record" where
  \<comment> \<open>\<^verbatim>\<open>terminals.sort(key=...); terminals[-1]\<close> on a list that is not empty; Python's
     sort is stable, as \<^const>\<open>sort_key\<close> is\<close>
  "latest_terminal_of terminals = last (sort_key timestamp_key terminals)"

text \<open>
  The result of \<^verbatim>\<open>find_winning_path\<close>: \<open>None\<close> when the loop of the walk never ends,
  \<open>Some None\<close> for Python's \<^verbatim>\<open>None\<close>, \<open>Some (Some S)\<close> for the set \<open>S\<close>.
\<close>

definition find_winning_path :: "raw_record list \<Rightarrow> string set option option" where
  "find_winning_path all_records =
     (let by_uuid = by_uuid_of all_records in
      if by_uuid = [] then Some None
      else
        let terminals = terminals_of all_records in
        if terminals = [] then Some None
        else
          let latest_terminal = latest_terminal_of terminals in
          map_option Some (walk_back by_uuid {} (uuid latest_terminal)))"

definition off_path :: "string set option \<Rightarrow> raw_record \<Rightarrow> bool" where
  \<comment> \<open>\<^verbatim>\<open>winning_uuids and record.get('uuid')\<close> and
     \<^verbatim>\<open>record['uuid'] not in winning_uuids\<close>\<close>
  "off_path winning_uuids r =
     (case winning_uuids of
        None \<Rightarrow> False
      | Some w \<Rightarrow> w \<noteq> {} \<and> truthy (uuid r) \<and> get_str (uuid r) \<notin> w)"

definition raw_records_of :: "string set option \<Rightarrow> raw_record list \<Rightarrow> raw_record list" where
  \<comment> \<open>the filter of \<^verbatim>\<open>parse_conversation\<close> onto the winning path\<close>
  "raw_records_of winning_uuids all_records =
     filter (\<lambda>r. \<not> (message r = None \<or> isMeta r) \<and> \<not> off_path winning_uuids r) all_records"

definition select_records :: "raw_record list \<Rightarrow> raw_record list option" where
  \<comment> \<open>resolver and filter together, as \<^verbatim>\<open>parse_conversation\<close> runs them; \<open>None\<close> when
     the resolver does not return\<close>
  "select_records all_records =
     map_option (\<lambda>w. raw_records_of w all_records) (find_winning_path all_records)"

subsection \<open>The event tree, for stating what the resolver computes\<close>

definition parent_links :: "raw_record list \<Rightarrow> (string \<times> string) set" where
  \<comment> \<open>the pairs (id, parent id) of the indexed records that declare a parent\<close>
  "parent_links all_records =
     set (map (\<lambda>(u, r). (u, get_str (parentUuid r)))
            (filter (\<lambda>(u, r). truthy (parentUuid r)) (by_uuid_of all_records)))"



fun parent_chain :: "(string \<times> string) set \<Rightarrow> string list \<Rightarrow> bool" where
  "parent_chain links (u # v # us) = ((u, v) \<in> links \<and> parent_chain links (v # us))"
| "parent_chain links _ = True"

subsection \<open>Sample logs\<close>

definition empty_record :: raw_record where
  "empty_record = \<lparr>uuid = None, parentUuid = None, timestamp = None, sessionId = None, cwd = None,
     isMeta = False, requestId = None, message = None\<rparr>"

definition retry_log :: "raw_record list" where
  \<comment> \<open>a root and two retries of its answer\<close>
  "retry_log =
    [empty_record\<lparr>uuid := Some ''r'', timestamp := Some ''2024-01-01T10:00:00Z''\<rparr>,
     empty_record\<lparr>uuid := Some ''c1'', parentUuid := Some ''r'',
       timestamp := Some ''2024-01-01T10:00:05Z''\<rparr>,
     empty_record\<lparr>uuid := Some ''c2'', parentUuid := Some ''r'',
       timestamp := Some ''2024-01-01T10:00:09Z''\<rparr>]"

definition text_message :: "string \<Rightarrow> string \<Rightarrow> message_rec" where
  "text_message r txt = \<lparr>role = Some r, content = Some (CStr txt)\<rparr>"

definition cyclic_log :: "raw_record list" where
  \<comment> \<open>two records that name each other as parent: every id is a parent, no terminal\<close>
  "cyclic_log =
    [empty_record\<lparr>uuid := Some ''a'', parentUuid := Some ''b'',
       message := Some (text_message ''user'' ''hello'')\<rparr>,
     empty_record\<lparr>uuid := Some ''b'', parentUuid := Some ''a'',
       message := Some (text_message ''assistant'' ''hi'')\<rparr>,
     empty_record\<lparr>uuid := Some ''m'', parentUuid := Some ''m'', isMeta := True,
       message := Some (text_message ''user'' ''meta'')\<rparr>]"

definition dangling_log :: "raw_record list" where
  \<comment> \<open>the parent of \<open>x\<close> is not in the log; \<open>z\<close> is an older retry of \<open>y\<close>\<close>
  "dangling_log =
    [empty_record\<lparr>uuid := Some ''x'', parentUuid := Some ''gone'', timestamp := Some ''1'',
       message := Some (text_message ''user'' ''q'')\<rparr>,
     empty_record\<lparr>uuid := Some ''z'', parentUuid := Some ''x'', timestamp := Some ''2'',
       message := Some (text_message ''assistant'' ''old'')\<rparr>,
     empty_record\<lparr>uuid := Some ''y'', parentUuid := Some ''x'', timestamp := Some ''3'',
       message := Some (text_message ''assistant'' ''new'')\<rparr>]"

definition no_id_record :: raw_record where
  "no_id_record = empty_record\<lparr>message := Some (text_message ''user'' ''no id'')\<rparr>"

section \<open>The turn aggregator\<close>

definition the_message :: "raw_record \<Rightarrow> message_rec" where
  \<comment> \<open>\<^verbatim>\<open>record['message']\<close>; the records that reach the three phases all have the key (the
     filter above dropped the others), so the second case is never met there\<close>
  "the_message r = (case message r of Some m \<Rightarrow> m | None \<Rightarrow> \<lparr>role = None, content = None\<rparr>)"

definition content_truthy :: "content option \<Rightarrow> bool" where
  \<comment> \<open>Python's truth value of \<^verbatim>\<open>msg.get('content')\<close>\<close>
  "content_truthy c =
     (case c of None \<Rightarrow> False | Some (CStr s) \<Rightarrow> s \<noteq> [] | Some (CList ps) \<Rightarrow> ps \<noteq> []
      | Some (COther b) \<Rightarrow> b)"

type_synonym turn = "string \<times> raw_record list"

record agg_state =
  turns :: "turn list"
  current_req_id :: "string option"
  current_assistant_records :: "raw_record list"

definition flush_assistant :: "agg_state \<Rightarrow> agg_state" where
  "flush_assistant s =
     \<lparr>turns = (if current_assistant_records s \<noteq> []
                then turns s @ [(''assistant'', current_assistant_records s)] else turns s),
      current_req_id = None, current_assistant_records = []\<rparr>"

definition group_step :: "raw_record \<Rightarrow> agg_state \<Rightarrow> agg_state" where
  "group_step r s =
     (let msg = the_message r in
      if \<not> content_truthy (content msg) then s
      else
        let req_id = get_str (requestId r) in
        if role msg = Some ''assistant'' then
          (if req_id \<noteq> [] \<and> Some req_id = current_req_id s
           then s\<lparr>current_assistant_records := current_assistant_records s @ [r]\<rparr>
           else (flush_assistant s)\<lparr>current_req_id := Some req_id,
                  current_assistant_records := [r]\<rparr>)
        else if role msg = Some ''user'' then
          (let s' = flush_assistant s in s'\<lparr>turns := turns s' @ [(''user'', [r])]\<rparr>)
        else s)"

definition initial_agg :: agg_state where
  "initial_agg = \<lparr>turns = [], current_req_id = None, current_assistant_records = []\<rparr>"

definition group_turns :: "raw_record list \<Rightarrow> turn list" where
  "group_turns raw_records = turns (flush_assistant (fold group_step raw_records initial_agg))"




definition user_record :: "string \<Rightarrow> raw_record" where
  "user_record txt = empty_record\<lparr>message := Some (text_message ''user'' txt)\<rparr>"

section \<open>The event log loader\<close>

text \<open>
  A line of the log is \<open>None\<close> when \<^verbatim>\<open>json.loads\<close> raises \<^verbatim>\<open>JSONDecodeError\<close> on it, and
  \<open>Some r\<close> when it is the JSON object \<open>r\<close>. For the keys \<^verbatim>\<open>sessionId\<close>, \<^verbatim>\<open>cwd\<close> and
  \<^verbatim>\<open>timestamp\<close>, which the loader tests with \<^verbatim>\<open>in\<close>, \<open>None\<close> is the absent key.
\<close>

record loader_state =
  all_records :: "raw_record list"
  session_id :: "string option"
  project_path :: "string option"
  last_timestamp :: "string option"

definition initial_loader :: loader_state where
  "initial_loader = \<lparr>all_records = [], session_id = None, project_path = None, last_timestamp = None\<rparr>"

definition load_line :: "raw_record option \<Rightarrow> loader_state \<Rightarrow> loader_state" where
  "load_line line s =
     (case line of
        None \<Rightarrow> s
      | Some r \<Rightarrow>
          \<lparr>all_records = all_records s @ [r],
           session_id = (if sessionId r \<noteq> None then sessionId r else session_id s),
           project_path = (if cwd r \<noteq> None then cwd r else project_path s),
           last_timestamp = (if timestamp r \<noteq> None then timestamp r else last_timestamp s)\<rparr>)"

definition load_lines :: "raw_record option list \<Rightarrow> loader_state" where
  "load_lines lines = fold load_line lines initial_loader"

subsection \<open>What the loader computes, stated on the log\<close>



definition session_log :: "raw_record option list" where
  \<comment> \<open>a log whose last session id is empty and whose timestamps go down\<close>
  "session_log =
     [Some (empty_record\<lparr>sessionId := Some ''abc'', cwd := Some ''/work'', timestamp := Some ''2024-02-02''\<rparr>),
      None,
      Some (empty_record\<lparr>sessionId := Some '''', timestamp := Some ''2024-01-01''\<rparr>),
      Some empty_record]"

section \<open>Python's string operations\<close>

definition newline :: char where
  "newline = CHR 0x0A"

definition isspace :: "char \<Rightarrow> bool" where
  \<comment> \<open>the ASCII characters that \<^verbatim>\<open>str.isspace\<close> accepts: tab to carriage return, the four
     separators \<^verbatim>\<open>\x1c\<close> to \<^verbatim>\<open>\x1f\<close>, and the space\<close>
  "isspace c = (let n = (of_char c :: nat) in (9 \<le> n \<and> n \<le> 13) \<or> (28 \<le> n \<and> n \<le> 32))"

definition strip :: "string \<Rightarrow> string" where
  "strip s = rev (dropWhile isspace (rev (dropWhile isspace s)))"

definition startswith :: "string \<Rightarrow> string \<Rightarrow> bool" where
  \<comment> \<open>\<^verbatim>\<open>s.startswith(p)\<close>\<close>
  "startswith s p = (take (length p) s = p)"

fun find_from :: "string \<Rightarrow> string \<Rightarrow> nat \<Rightarrow> nat option" where
  "find_from sub [] i = (if sub = [] then Some i else None)"
| "find_from sub (c # s) i = (if startswith (c # s) sub then Some i else find_from sub s (Suc i))"

definition str_find :: "string \<Rightarrow> string \<Rightarrow> nat option" where
  \<comment> \<open>\<^verbatim>\<open>s.find(sub)\<close>: the first index, \<open>None\<close> for Python's \<open>-1\<close>\<close>
  "str_find s sub = find_from sub s 0"

definition contains :: "string \<Rightarrow> string \<Rightarrow> bool" where
  \<comment> \<open>\<^verbatim>\<open>sub in s\<close>\<close>
  "contains s sub = (str_find s sub \<noteq> None)"

definition lower_char :: "char \<Rightarrow> char" where
  "lower_char c =
     (let n = (of_char c :: nat) in if 65 \<le> n \<and> n \<le> 90 then char_of (n + 32) else c)"

definition lower :: "string \<Rightarrow> string" where
  "lower s = map lower_char s"

fun join :: "string \<Rightarrow> string list \<Rightarrow> string" where
  "join sep [] = []"
| "join sep [x] = x"
| "join sep (x # y # ys) = x @ sep @ join sep (y # ys)"

definition first_line :: "string \<Rightarrow> string" where
  \<comment> \<open>\<^verbatim>\<open>s.split('\n')[0]\<close>\<close>
  "first_line s = takeWhile (\<lambda>c. c \<noteq> newline) s"

definition count_newlines :: "string \<Rightarrow> nat" where
  \<comment> \<open>\<^verbatim>\<open>s.count('\n')\<close>\<close>
  "count_newlines s = length (filter (\<lambda>c. c = newline) s)"

definition replace_char :: "char \<Rightarrow> char \<Rightarrow> string \<Rightarrow> string" where
  "replace_char a b s = map (\<lambda>c. if c = a then b else c) s"

fun digits :: "nat \<Rightarrow> nat \<Rightarrow> string" where
  \<comment> \<open>the decimal digits of a number, with fuel enough for its length\<close>
  "digits 0 n = []"
| "digits (Suc fuel) n =
     (if n < 10 then [char_of (48 + n)]
      else digits fuel (n div 10) @ [char_of (48 + n mod 10)])"

definition str_of_nat :: "nat \<Rightarrow> string" where
  \<comment> \<open>\<^verbatim>\<open>str(n)\<close> inside an f-string\<close>
  "str_of_nat n = digits (Suc n) n"

definition is_line_break :: "char \<Rightarrow> bool" where
  \<comment> \<open>the ASCII line boundaries of \<^verbatim>\<open>str.splitlines\<close>\<close>
  "is_line_break c = (let n = (of_char c :: nat) in (10 \<le> n \<and> n \<le> 13) \<or> (28 \<le> n \<and> n \<le> 30))"

fun splitlines_acc :: "string \<Rightarrow> string \<Rightarrow> string list" where
  "splitlines_acc cur [] = (if cur = [] then [] else [rev cur])"
| "splitlines_acc cur (c # s) =
     (if c = CHR 0x0D \<and> s \<noteq> [] \<and> hd s = newline then rev cur # splitlines_acc [] (tl s)
      else if is_line_break c then rev cur # splitlines_acc [] s
      else splitlines_acc (c # cur) s)"

definition splitlines :: "string \<Rightarrow> string list" where
  "splitlines s = splitlines_acc [] s"

section \<open>The message significance filter and the annotations\<close>

definition is_meaningful :: "string \<Rightarrow> bool" where
  "is_meaningful text0 =
     (let t = strip text0 in
      if t = [] then False
      else if startswith t ''<command-name>'' then False
      else if startswith t ''<local-command-stdout>'' then False
      else if startswith t ''[Request interrupted'' then False
      else True)"

text \<open>
  What the source takes from its surroundings and from libraries: the home directory
  (\<^verbatim>\<open>Path.home()\<close>), \<^verbatim>\<open>urlparse\<close> (the network location followed by the path of a URL),
  \<^verbatim>\<open>Path(p).suffix\<close>, and \<^verbatim>\<open>datetime.fromisoformat\<close> followed by
  \<^verbatim>\<open>strftime('%Y%m%d')\<close> (\<open>None\<close> when the parse raises \<^verbatim>\<open>ValueError\<close>).
\<close>

record env =
  home :: string
  netloc_path :: "string \<Rightarrow> string"
  path_suffix :: "string \<Rightarrow> string"
  iso_yyyymmdd :: "string \<Rightarrow> string option"

definition shorten_path :: "env \<Rightarrow> string \<Rightarrow> string" where
  "shorten_path e p =
     (if p = [] then []
      else if startswith p (home e) then ''~'' @ drop (length (home e)) p
      else p)"

definition empty_input :: tool_input where
  \<comment> \<open>the \<^verbatim>\<open>{}\<close> of \<^verbatim>\<open>part.get('input', {})\<close>\<close>
  "empty_input = \<lparr>file_path = None, query = None, url = None, description = None,
     command = None, pattern = None, inp_content = None, questions = None\<rparr>"

definition get_input :: "part_dict \<Rightarrow> tool_input" where
  "get_input p = (case input p of None \<Rightarrow> empty_input | Some i \<Rightarrow> i)"

definition generate_tool_annotation :: "env \<Rightarrow> part_dict \<Rightarrow> string option" where
  "generate_tool_annotation e tool_use =
     (let nm = get_str (name tool_use); inp = get_input tool_use in
      if nm = ''Read'' then Some (''Read: '' @ shorten_path e (get_str (file_path inp)))
      else if nm = ''Write'' then Some (''Wrote: '' @ shorten_path e (get_str (file_path inp)))
      else if nm = ''Edit'' then Some (''Edited: '' @ shorten_path e (get_str (file_path inp)))
      else if nm = ''WebSearch'' then
        Some (''Searched web: '' @ [CHR 0x22] @ get_str (query inp) @ [CHR 0x22])
      else if nm = ''WebFetch'' then Some (''Fetched: '' @ netloc_path e (get_str (url inp)))
      else if nm = ''Task'' then Some (''Launched agent: '' @ get_str (description inp))
      else if nm = ''Bash'' then
        (let desc = get_str (description inp); cmd = get_str (command inp);
             label = (if desc \<noteq> [] then desc
                      else take 60 cmd @ (if length cmd > 60 then ''...'' else [])) in
         Some (''Ran: `'' @ label @ ''`''))
      else if nm = ''Glob'' then Some (''Found files: '' @ get_str (pattern inp))
      else if nm = ''Grep'' then
        Some (''Searched code: '' @ [CHR 0x22] @ get_str (pattern inp) @ [CHR 0x22])
      else if nm = ''EnterPlanMode'' then Some ''Entered plan mode''
      else if nm = ''ExitPlanMode'' then Some ''Exited plan mode''
      else if nm = ''AskUserQuestion'' then None
      else Some (''Used tool: '' @ nm))"

section \<open>Answers to interactive questions\<close>

fun until_quote :: "string \<Rightarrow> (string \<times> string) option" where
  \<comment> \<open>\<^verbatim>\<open>[^"]*"\<close>: the text before the next double quote, and the text after it\<close>
  "until_quote [] = None"
| "until_quote (c # s) =
     (if c = CHR 0x22 then Some ([], s)
      else (case until_quote s of None \<Rightarrow> None | Some (a, r) \<Rightarrow> Some (c # a, r)))"

definition match_pair :: "string \<Rightarrow> ((string \<times> string) \<times> string) option" where
  \<comment> \<open>a match of \<^verbatim>\<open>"([^"]*)"="([^"]*)"\<close> at the start of the string: the two groups and
     the rest\<close>
  "match_pair s =
     (case s of
        c # s1 \<Rightarrow>
          if c = CHR 0x22 then
            (case until_quote s1 of
               Some (g1, c2 # c3 # s3) \<Rightarrow>
                 if c2 = CHR ''='' \<and> c3 = CHR 0x22 then
                   (case until_quote s3 of
                      Some (g2, rest) \<Rightarrow> Some ((g1, g2), rest)
                    | None \<Rightarrow> None)
                 else None
             | _ \<Rightarrow> None)
          else None
      | [] \<Rightarrow> None)"

lemma until_quote_length: "until_quote s = Some (a, r) \<Longrightarrow> length r < length s"
  by (induction s arbitrary: a r) (auto split: if_splits option.splits)

lemma match_pair_length: "match_pair s = Some (p, r) \<Longrightarrow> length r < length s"
  by (auto simp: match_pair_def split: list.splits if_splits option.splits prod.splits
           dest!: until_quote_length)

function findall_pairs :: "string \<Rightarrow> (string \<times> string) list" where
  "findall_pairs [] = []"
| "findall_pairs (c # s) =
     (case match_pair (c # s) of
        Some (p, rest) \<Rightarrow> p # findall_pairs rest
      | None \<Rightarrow> findall_pairs s)"
  by pat_completeness auto
termination
  by (relation "measure length") (auto dest: match_pair_length)

definition content_text :: "result_content \<Rightarrow> string option" where
  \<comment> \<open>the first lines of \<^verbatim>\<open>parse_ask_answer\<close>: the text parts of a list joined by newlines, a
     string as it is, \<open>None\<close> for any other value\<close>
  "content_text c =
     (case c of
        RList ps \<Rightarrow>
          Some (join [newline]
                  (map (\<lambda>p. get_str (rtext p))
                     (filter (\<lambda>p. p \<noteq> RNonDict \<and> rtype p = Some ''text'') ps)))
      | RStr s \<Rightarrow> Some s
      | ROther \<Rightarrow> None)"

definition trim_marker :: "string \<Rightarrow> string \<Rightarrow> string" where
  "trim_marker marker after =
     (case str_find after marker of
        Some end_idx \<Rightarrow> if end_idx > 0 then strip (take end_idx after) else after
      | None \<Rightarrow> after)"

definition parse_ask_answer :: "result_content \<Rightarrow> string option" where
  "parse_ask_answer c =
     (case content_text c of
        None \<Rightarrow> None
      | Some txt \<Rightarrow>
          (let pairs = (if contains txt ''User has answered your questions:''
                        then findall_pairs txt else []) in
           if pairs \<noteq> [] then Some (join ''; '' (map (\<lambda>(q, a). strip a) pairs))
           else if contains txt ''doesn't want to proceed'' \<or>
                   contains (lower txt) ''user wants to clarify'' then
             (let said = (if contains (lower txt) ''the user said:'' then
                            (let idx = the (str_find (lower txt) ''the user said:'');
                                 after = strip (drop (idx + length ''the user said:'') txt);
                                 after = trim_marker ([newline] @ ''    Questions asked:'') after;
                                 after = trim_marker ([newline, newline] @ ''    This means'') after in
                             if after \<noteq> [] \<and>
                                \<not> contains (lower after) ''user wants to clarify these questions''
                             then Some after else None)
                          else None) in
              case said of Some after \<Rightarrow> Some after | None \<Rightarrow> Some ''[User requested clarification]'')
           else None))"

record qa_block =
  qa_questions :: "question_rec list"
  answer :: "string option"

definition format_question_answer :: "qa_block \<Rightarrow> string" where
  "format_question_answer qa =
     join [newline]
       (concat (map (\<lambda>q. (''> **Question:** '' @ get_str (question q)) #
                          map (\<lambda>opt. ''> - **'' @ get_str (label opt) @ ''** '' @
                                       [CHR 0xE2, CHR 0x80, CHR 0x94] @ '' '' @
                                       get_str (opt_description opt))
                            (case options q of None \<Rightarrow> [] | Some os \<Rightarrow> os))
                  (qa_questions qa)) @
        [''>''] @
        [if truthy (answer qa) then ''> **Answer:** '' @ get_str (answer qa)
         else ''> **Answer:** [No answer recorded]''])"

section \<open>Phase 1: questions and their answers\<close>

datatype py_error = KeyError | ValueError | AttributeError

record ask_state =
  ask_questions :: "(string \<times> tool_input) list"
  ask_answers :: "(string \<times> string option) list"

definition get_result :: "part_dict \<Rightarrow> result_content" where
  \<comment> \<open>\<^verbatim>\<open>part.get('content', '')\<close>\<close>
  "get_result p = (case result p of None \<Rightarrow> RStr [] | Some c \<Rightarrow> c)"

definition addressed_to :: "part_dict \<Rightarrow> string list \<Rightarrow> bool" where
  \<comment> \<open>\<^verbatim>\<open>part.get('tool_use_id') in ids\<close>\<close>
  "addressed_to p ids = (case tool_use_id p of None \<Rightarrow> False | Some t \<Rightarrow> t \<in> set ids)"

definition collect_part :: "part \<Rightarrow> ask_state \<Rightarrow> py_error + ask_state" where
  "collect_part pt s =
     (case pt of
        NonDict \<Rightarrow> Inr s
      | Dict p \<Rightarrow>
          if type p = Some ''tool_use'' \<and> name p = Some ''AskUserQuestion'' then
            (case tool_id p of
               None \<Rightarrow> Inl KeyError
             | Some i \<Rightarrow> Inr (s\<lparr>ask_questions := AList.update i (get_input p) (ask_questions s)\<rparr>))
          else if type p = Some ''tool_result'' \<and> addressed_to p (map fst (ask_questions s)) then
            Inr (s\<lparr>ask_answers := AList.update (get_str (tool_use_id p))
                                     (parse_ask_answer (get_result p)) (ask_answers s)\<rparr>)
          else Inr s)"

fun collect_parts :: "part list \<Rightarrow> ask_state \<Rightarrow> py_error + ask_state" where
  "collect_parts [] s = Inr s"
| "collect_parts (pt # pts) s =
     (case collect_part pt s of Inl err \<Rightarrow> Inl err | Inr s' \<Rightarrow> collect_parts pts s')"

definition parts_of :: "raw_record \<Rightarrow> part list" where
  \<comment> \<open>the parts that the iterations over \<^verbatim>\<open>msg.get('content', [])\<close> visit: none unless it is a list\<close>
  "parts_of r = (case content (the_message r) of Some (CList ps) \<Rightarrow> ps | _ \<Rightarrow> [])"

fun collect_records :: "raw_record list \<Rightarrow> ask_state \<Rightarrow> py_error + ask_state" where
  "collect_records [] s = Inr s"
| "collect_records (r # rs) s =
     (case collect_parts (parts_of r) s of Inl err \<Rightarrow> Inl err | Inr s' \<Rightarrow> collect_records rs s')"

definition initial_ask :: ask_state where
  "initial_ask = \<lparr>ask_questions = [], ask_answers = []\<rparr>"

section \<open>Phase 3: enriched messages\<close>

record write_content =
  wc_file_path :: string
  wc_content :: string
  line_count :: nat

record enrich_state =
  text_parts :: "string list"
  tool_annotations :: "string list"
  question_answers :: "qa_block list"
  write_contents :: "write_content list"

definition get_answer :: "(string \<times> string option) list \<Rightarrow> string \<Rightarrow> string option" where
  \<comment> \<open>\<^verbatim>\<open>ask_answers.get(tool_id)\<close>\<close>
  "get_answer answers i = (case map_of answers i of None \<Rightarrow> None | Some a \<Rightarrow> a)"

definition add_annotation :: "string option \<Rightarrow> enrich_state \<Rightarrow> enrich_state" where
  \<comment> \<open>\<^verbatim>\<open>if ann: tool_annotations.append(ann)\<close>\<close>
  "add_annotation ann s =
     (if truthy ann then s\<lparr>tool_annotations := tool_annotations s @ [get_str ann]\<rparr> else s)"

definition add_question :: "(string \<times> string option) list \<Rightarrow> part_dict \<Rightarrow> enrich_state \<Rightarrow> enrich_state" where
  "add_question answers p s =
     (if get_str (name p) = ''AskUserQuestion'' then
        s\<lparr>question_answers := question_answers s @
            [\<lparr>qa_questions = (case questions (get_input p) of None \<Rightarrow> [] | Some qs \<Rightarrow> qs),
              answer = get_answer answers (get_str (tool_id p))\<rparr>]\<rparr>
      else s)"

definition add_write :: "part_dict \<Rightarrow> enrich_state \<Rightarrow> enrich_state" where
  "add_write p s =
     (if get_str (name p) = ''Write'' then
        (let inp = get_input p;
             file_content = get_str (inp_content inp);
             fp = get_str (file_path inp);
             lc = (if file_content \<noteq> [] then count_newlines file_content + 1 else 0) in
         if file_content \<noteq> [] \<and> lc \<le> 200 then
           s\<lparr>write_contents := write_contents s @
               [\<lparr>wc_file_path = fp, wc_content = file_content, line_count = lc\<rparr>]\<rparr>
         else s)
      else s)"

definition enrich_part :: "env \<Rightarrow> (string \<times> string option) list \<Rightarrow> part \<Rightarrow> enrich_state \<Rightarrow> enrich_state" where
  "enrich_part e answers pt s =
     (case pt of
        NonDict \<Rightarrow> s
      | Dict p \<Rightarrow>
          if type p = Some ''text'' then s\<lparr>text_parts := text_parts s @ [get_str (ptext p)]\<rparr>
          else if type p = Some ''tool_use'' then
            add_write p (add_question answers p (add_annotation (generate_tool_annotation e p) s))
          else s)"

definition enrich_record :: "env \<Rightarrow> (string \<times> string option) list \<Rightarrow> raw_record \<Rightarrow> enrich_state \<Rightarrow> enrich_state" where
  "enrich_record e answers r s =
     (case content (the_message r) of
        Some (CStr t) \<Rightarrow> s\<lparr>text_parts := text_parts s @ [t]\<rparr>
      | Some (CList ps) \<Rightarrow> fold (enrich_part e answers) ps s
      | _ \<Rightarrow> s)"

definition initial_enrich :: enrich_state where
  "initial_enrich = \<lparr>text_parts = [], tool_annotations = [], question_answers = [], write_contents = []\<rparr>"

record out_message =
  m_role :: string
  m_text :: string
  m_timestamp :: "string option"
  m_tool_annotations :: "string list"
  m_question_answers :: "qa_block list"
  m_write_contents :: "write_content list"

definition assistant_message :: "env \<Rightarrow> (string \<times> string option) list \<Rightarrow> raw_record list \<Rightarrow> out_message option" where
  \<comment> \<open>the assistant branch of the loop over the turns; \<open>None\<close> when no message is appended. The
     records of an assistant turn are never empty, so \<^verbatim>\<open>records[0]\<close> is \<^const>\<open>hd\<close>\<close>
  "assistant_message e answers records =
     (let s = fold (enrich_record e answers) records initial_enrich;
          txt = join [newline, newline] (filter (\<lambda>t. strip t \<noteq> []) (text_parts s)) in
      if is_meaningful txt \<or> tool_annotations s \<noteq> [] \<or> question_answers s \<noteq> [] then
        Some \<lparr>m_role = ''assistant'', m_text = txt, m_timestamp = timestamp (hd records),
              m_tool_annotations = tool_annotations s, m_question_answers = question_answers s,
              m_write_contents = write_contents s\<rparr>
      else None)"

definition scan_user_part :: "string list \<Rightarrow> part \<Rightarrow> string list \<times> bool \<Rightarrow> string list \<times> bool" where
  \<comment> \<open>one round of the loop over a user record's parts: the text parts so far and the flag
     \<^verbatim>\<open>is_only_ask_results\<close>\<close>
  "scan_user_part ask_tool_result_ids pt acc =
     (case pt of
        NonDict \<Rightarrow> (fst acc, False)
      | Dict p \<Rightarrow>
          if type p = Some ''text'' then (fst acc @ [get_str (ptext p)], snd acc)
          else if type p = Some ''tool_result'' then
            (if \<not> addressed_to p ask_tool_result_ids then (fst acc, False) else acc)
          else (fst acc, False))"

definition user_text :: "string list \<Rightarrow> raw_record \<Rightarrow> string option" where
  \<comment> \<open>the text of a user turn, \<open>None\<close> where the source says \<^verbatim>\<open>continue\<close>\<close>
  "user_text ask_tool_result_ids r =
     (case content (the_message r) of
        Some (CList ps) \<Rightarrow>
          (let (parts, is_only_ask_results) = fold (scan_user_part ask_tool_result_ids) ps ([], True);
               txt = join [newline, newline] parts in
           if is_only_ask_results \<and> \<not> is_meaningful txt then None
           else if \<not> is_meaningful txt then None
           else Some txt)
      | Some (CStr t) \<Rightarrow> if \<not> is_meaningful t then None else Some t
      | _ \<Rightarrow> None)"

definition user_message :: "string list \<Rightarrow> raw_record \<Rightarrow> out_message option" where
  "user_message ask_tool_result_ids r =
     (case user_text ask_tool_result_ids r of
        None \<Rightarrow> None
      | Some txt \<Rightarrow>
          Some \<lparr>m_role = ''user'', m_text = txt, m_timestamp = timestamp r,
                m_tool_annotations = [], m_question_answers = [], m_write_contents = []\<rparr>)"

record build_state =
  messages :: "out_message list"
  first_user_msg :: "string option"

definition build_turn :: "env \<Rightarrow> ask_state \<Rightarrow> turn \<Rightarrow> build_state \<Rightarrow> build_state" where
  "build_turn e asks t s =
     (if fst t = ''assistant'' then
        (case assistant_message e (ask_answers asks) (snd t) of
           None \<Rightarrow> s
         | Some m \<Rightarrow> s\<lparr>messages := messages s @ [m]\<rparr>)
      else
        (case user_message (map fst (ask_questions asks)) (hd (snd t)) of
           None \<Rightarrow> s
         | Some m \<Rightarrow>
             \<lparr>messages = messages s @ [m],
              first_user_msg = (if \<not> truthy (first_user_msg s)
                                then Some (take 100 (first_line (m_text m)))
                                else first_user_msg s)\<rparr>))"

definition build_messages :: "env \<Rightarrow> ask_state \<Rightarrow> turn list \<Rightarrow> build_state" where
  "build_messages e asks ts = fold (build_turn e asks) ts \<lparr>messages = [], first_user_msg = None\<rparr>"

section \<open>The whole of parse\_conversation\<close>

text \<open>
  A log file: its path as a string, its stem, and its lines (\<open>None\<close> when the file cannot be
  opened or read, which the source answers by returning \<^verbatim>\<open>None\<close>).
\<close>

record jsonl_file =
  path_str :: string
  stem :: string
  file_lines :: "raw_record option list option"

record conversation =
  c_path :: string
  c_session_id :: string
  c_project :: "string option"
  c_first_message :: string
  c_message_count :: nat
  c_user_messages :: nat
  c_last_timestamp :: "string option"
  c_messages :: "out_message list"

text \<open>
  The result of \<^verbatim>\<open>parse_conversation\<close>: \<open>None\<close> when the resolver's walk never ends,
  \<open>Some (Inl err)\<close> when an exception leaves the function, \<open>Some (Inr None)\<close> for Python's
  \<^verbatim>\<open>None\<close>, \<open>Some (Inr (Some c))\<close> for the summary \<open>c\<close>.
\<close>

definition parse_conversation :: "env \<Rightarrow> jsonl_file \<Rightarrow> (py_error + conversation option) option" where
  "parse_conversation e jsonl_path =
     (case file_lines jsonl_path of
        None \<Rightarrow> Some (Inr None)
      | Some lines \<Rightarrow>
          (let ld = load_lines lines in
           if all_records ld = [] then Some (Inr None)
           else
             (case find_winning_path (all_records ld) of
                None \<Rightarrow> None
              | Some winning_uuids \<Rightarrow>
                  (let raw_records = raw_records_of winning_uuids (all_records ld) in
                   if raw_records = [] then Some (Inr None)
                   else
                     (case collect_records raw_records initial_ask of
                        Inl err \<Rightarrow> Some (Inl err)
                      | Inr asks \<Rightarrow>
                          (let b = build_messages e asks (group_turns raw_records) in
                           if messages b = [] then Some (Inr None)
                           else
                             Some (Inr (Some
                               \<lparr>c_path = path_str jsonl_path,
                                c_session_id = (if truthy (session_id ld) then get_str (session_id ld)
                                                else stem jsonl_path),
                                c_project = project_path ld,
                                c_first_message = (if truthy (first_user_msg b)
                                                   then get_str (first_user_msg b) else ''Unknown''),
                                c_message_count = length (messages b),
                                c_user_messages = length (filter (\<lambda>m. m_role m = ''user'') (messages b)),
                                c_last_timestamp = last_timestamp ld,
                                c_messages = messages b\<rparr>))))))))"

section \<open>The document renderer\<close>

definition fmt_opt :: "string option \<Rightarrow> string" where
  \<comment> \<open>a value that may be \<^verbatim>\<open>None\<close>, inside an f-string\<close>
  "fmt_opt v = (case v of None \<Rightarrow> ''None'' | Some s \<Rightarrow> s)"

definition render_header :: "conversation \<Rightarrow> string" where
  "render_header conv =
     ''# Conversation: '' @ c_first_message conv @ [newline, newline] @
     ''**Date:** '' @ fmt_opt (c_last_timestamp conv) @ [newline] @
     ''**Project:** '' @ fmt_opt (c_project conv) @ [newline] @
     ''**Messages:** '' @ str_of_nat (c_message_count conv) @ [newline, newline]"

definition toc_entry :: "nat \<Rightarrow> out_message \<Rightarrow> string" where
  "toc_entry user_count msg =
     (let fl = first_line (strip (m_text msg));
          preview = take 100 fl @ (if length fl > 100 then ''...'' else []) in
      str_of_nat user_count @ ''. ['' @ preview @ ''](#user-'' @ str_of_nat user_count @ '')'' @
      [newline])"

definition toc_step :: "out_message \<Rightarrow> nat \<times> string \<Rightarrow> nat \<times> string" where
  "toc_step msg acc =
     (if m_role msg = ''user'' then (fst acc + 1, snd acc @ toc_entry (fst acc + 1) msg) else acc)"

definition write_map_of :: "env \<Rightarrow> write_content list \<Rightarrow> (string \<times> write_content) list" where
  "write_map_of e wcs = fold (\<lambda>wc d. AList.update (shorten_path e (wc_file_path wc)) wc d) wcs []"

definition render_file_block :: "env \<Rightarrow> write_content \<Rightarrow> string" where
  "render_file_block e wc =
     (let ext = dropWhile (\<lambda>c. c = CHR ''.'') (path_suffix e (wc_file_path wc));
          lang = (if ext \<noteq> [] then ext else []) in
      ''> <details><summary>File content ('' @ str_of_nat (line_count wc) @ '' lines)</summary>'' @
      [newline] @ ''>'' @ [newline] @
      ''> ```'' @ lang @ [newline] @
      concat (map (\<lambda>file_line. ''> '' @ file_line @ [newline]) (splitlines (wc_content wc))) @
      ''> ```'' @ [newline] @ ''> </details>'' @ [newline])"

definition render_annotation :: "env \<Rightarrow> (string \<times> write_content) list \<Rightarrow> string \<Rightarrow> string" where
  "render_annotation e write_map ann =
     ''> _'' @ ann @ ''_'' @ [newline] @
     (if startswith ann ''Wrote: '' then
        (case map_of write_map (drop (length ''Wrote: '') ann) of
           None \<Rightarrow> []
         | Some wc \<Rightarrow> render_file_block e wc)
      else [])"

definition render_assistant :: "env \<Rightarrow> out_message \<Rightarrow> string" where
  "render_assistant e msg =
     (if strip (m_text msg) \<noteq> [] then ''**Assistant:**'' @ [newline, newline] @ m_text msg @ [newline, newline]
      else []) @
     concat (map (\<lambda>qa. format_question_answer qa @ [newline, newline]) (m_question_answers msg)) @
     (if m_tool_annotations msg \<noteq> [] then
        concat (map (render_annotation e (write_map_of e (m_write_contents msg)))
                  (m_tool_annotations msg)) @ [newline]
      else [])"

definition body_step :: "env \<Rightarrow> out_message \<Rightarrow> nat \<times> string \<Rightarrow> nat \<times> string" where
  "body_step e msg acc =
     (let (user_count, out) =
        (if m_role msg = ''user'' then
           (fst acc + 1,
            snd acc @ ''## <a id='' @ [CHR 0x22] @ ''user-'' @ str_of_nat (fst acc + 1) @ [CHR 0x22] @
              ''></a>User #'' @ str_of_nat (fst acc + 1) @ [newline, newline] @
              m_text msg @ [newline, newline])
         else if m_role msg = ''assistant'' then (fst acc, snd acc @ render_assistant e msg)
         else acc) in
      (user_count, out @ ''---'' @ [newline, newline]))"

definition render_document :: "env \<Rightarrow> conversation \<Rightarrow> nat \<times> string" where
  \<comment> \<open>everything written to the output file, and the final \<^verbatim>\<open>user_count\<close>\<close>
  "render_document e conv =
     (let toc = snd (fold toc_step (c_messages conv) (0, []));
          body = fold (body_step e) (c_messages conv) (0, []) in
      (fst body,
       render_header conv @ ''## Table of Contents'' @ [newline, newline] @ toc @
       [newline] @ ''---'' @ [newline, newline] @ snd body))"

section \<open>Exporting a conversation\<close>

record project_dir =
  is_dir :: bool
  jsonl_files :: "jsonl_file list"

text \<open>
  The world \<^verbatim>\<open>export_conversation\<close> runs in: the entries of the projects directory with the
  \<^verbatim>\<open>*.jsonl\<close> files of each, the files written so far, and the lines printed so far.
\<close>

record world =
  projects :: "project_dir list"
  written :: "(string \<times> string) list"
  printed :: "string list"

definition find_matches :: "project_dir list \<Rightarrow> string \<Rightarrow> jsonl_file list" where
  "find_matches ps sid =
     concat (map (\<lambda>project_dir.
        if \<not> is_dir project_dir then []
        else filter (\<lambda>jsonl_file.
               \<not> startswith (stem jsonl_file) ''agent-'' \<and>
               (stem jsonl_file = sid \<or> startswith (stem jsonl_file) sid))
             (jsonl_files project_dir)) ps)"

definition print_line :: "string \<Rightarrow> world \<Rightarrow> world" where
  "print_line s w = w\<lparr>printed := printed w @ [s]\<rparr>"

definition default_output_path :: "env \<Rightarrow> conversation \<Rightarrow> py_error + string" where
  "default_output_path e conv =
     (case c_last_timestamp conv of
        None \<Rightarrow> Inl AttributeError
      | Some ts \<Rightarrow>
          (case iso_yyyymmdd e (concat (map (\<lambda>c. if c = CHR ''Z'' then ''+00:00'' else [c]) ts)) of
             None \<Rightarrow> Inl ValueError
           | Some day \<Rightarrow>
               (let safe_title = replace_char CHR '' '' CHR ''-''
                                   (replace_char CHR ''/'' CHR ''-'' (take 30 (c_first_message conv))) in
                Inr (''conversation-'' @ day @ ''-'' @ safe_title @ ''.md''))))"

definition export_selected :: "env \<Rightarrow> string \<Rightarrow> string option \<Rightarrow> jsonl_file \<Rightarrow> world \<Rightarrow> (py_error + world) option" where
  \<comment> \<open>\<^verbatim>\<open>export_conversation\<close> from \<^verbatim>\<open>conv_file = matches[0]\<close> on\<close>
  "export_selected e sid output_path conv_file w =
     (case parse_conversation e conv_file of
        None \<Rightarrow> None
      | Some (Inl err) \<Rightarrow> Some (Inl err)
      | Some (Inr None) \<Rightarrow> Some (Inr (print_line (''Failed to parse conversation '' @ sid) w))
      | Some (Inr (Some conv)) \<Rightarrow>
          (case (if truthy output_path then Inr (get_str output_path)
                 else default_output_path e conv) of
             Inl err \<Rightarrow> Some (Inl err)
           | Inr out_path \<Rightarrow>
               (let (user_count, doc) = render_document e conv in
                Some (Inr (print_line (''Table of Contents: '' @ str_of_nat user_count @ '' user messages'')
                  (print_line (''Exported to: '' @ out_path)
                    (w\<lparr>written := AList.update out_path doc (written w)\<rparr>)))))))"

text \<open>
  The result of \<^verbatim>\<open>export_conversation\<close>: \<open>None\<close> when it does not return, \<open>Some (Inl err)\<close>
  when an exception leaves it, \<open>Some (Inr w)\<close> with the world it leaves behind otherwise.
\<close>

definition export_conversation :: "env \<Rightarrow> string \<Rightarrow> string option \<Rightarrow> world \<Rightarrow> (py_error + world) option" where
  "export_conversation e sid output_path w =
     (let matches = find_matches (projects w) sid in
      if matches = [] then Some (Inr (print_line (''Conversation '' @ sid @ '' not found'') w))
      else if length matches > 1 then
        Some (Inr (print_line ([newline] @ ''Use a longer prefix to narrow it down.'')
          (fold (\<lambda>m. print_line (''  '' @ stem m)) matches
            (print_line (''Ambiguous prefix '' @ [CHR 0x27] @ sid @ [CHR 0x27] @ '', matches '' @
                         str_of_nat (length matches) @ '' conversations:'') w))))
      else export_selected e sid output_path (hd matches) w)"

section \<open>Sample conversations\<close>

definition sample_env :: env where
  \<comment> \<open>a home directory, and simple stand-ins for the library functions\<close>
  "sample_env =
     \<lparr>home = ''/home/u'',
      netloc_path = (\<lambda>u. u),
      path_suffix = (\<lambda>p. let nm = rev (takeWhile (\<lambda>c. c \<noteq> CHR ''/'') (rev p));
                             ext = rev (takeWhile (\<lambda>c. c \<noteq> CHR ''.'') (rev nm)) in
                         if length ext + 1 < length nm \<and> ext \<noteq> [] then ''.'' @ ext else []),
      iso_yyyymmdd = (\<lambda>ts. if length ts \<ge> 10 then Some (filter (\<lambda>c. c \<noteq> CHR ''-'') (take 10 ts))
                            else None)\<rparr>"

definition empty_part :: part_dict where
  "empty_part = \<lparr>type = None, ptext = None, name = None, tool_id = None, input = None,
     tool_use_id = None, result = None\<rparr>"

definition text_part :: "string \<Rightarrow> part" where
  "text_part t = Dict (empty_part\<lparr>type := Some ''text'', ptext := Some t\<rparr>)"

definition tool_use_part :: "string \<Rightarrow> string \<Rightarrow> tool_input \<Rightarrow> part" where
  "tool_use_part nm i inp =
     Dict (empty_part\<lparr>type := Some ''tool_use'', name := Some nm, tool_id := Some i, input := Some inp\<rparr>)"

definition tool_result_part :: "string \<Rightarrow> string \<Rightarrow> part" where
  "tool_result_part i c =
     Dict (empty_part\<lparr>type := Some ''tool_result'', tool_use_id := Some i, result := Some (RStr c)\<rparr>)"

definition parts_record :: "string \<Rightarrow> string \<Rightarrow> part list \<Rightarrow> raw_record" where
  "parts_record rl q ps =
     empty_record\<lparr>requestId := Some q, message := Some \<lparr>role = Some rl, content = Some (CList ps)\<rparr>\<rparr>"

definition which_db :: tool_input where
  "which_db = empty_input\<lparr>questions := Some [\<lparr>question = Some ''Which db?'',
     options = Some [\<lparr>label = Some ''pg'', opt_description = Some ''Postgres''\<rparr>]\<rparr>]\<rparr>"

definition question_log :: "string \<Rightarrow> raw_record list" where
  \<comment> \<open>a question, then a user record that holds nothing but the tool result \<open>reply\<close>\<close>
  "question_log reply =
     [(user_record ''pick a db'')\<lparr>timestamp := Some ''2024-03-01T09:00:00Z'', cwd := Some ''/home/u/p''\<rparr>,
      parts_record ''assistant'' ''req1'' [tool_use_part ''AskUserQuestion'' ''q1'' which_db],
      parts_record ''user'' [] [tool_result_part ''q1'' reply]]"

definition question_file :: "string \<Rightarrow> jsonl_file" where
  "question_file reply =
     \<lparr>path_str = ''/logs/p/abc.jsonl'', stem = ''abc'', file_lines = Some (map Some (question_log reply))\<rparr>"


definition sample_world :: world where
  "sample_world =
     \<lparr>projects = [\<lparr>is_dir = True, jsonl_files = [question_file ''ok'',
                      (question_file ''ok'')\<lparr>stem := ''abd''\<rparr>,
                      (question_file ''ok'')\<lparr>stem := ''agent-abc''\<rparr>]\<rparr>,
                  \<lparr>is_dir = False, jsonl_files = [(question_file ''ok'')\<lparr>stem := ''abe''\<rparr>]\<rparr>],
      written = [], printed = []\<rparr>"

section \<open>Notions the properties are stated with\<close>

definition candidates :: "project_dir list \<Rightarrow> string \<Rightarrow> jsonl_file list" where
  \<comment> \<open>the logs, agent logs aside, whose id begins with the identifier, in the order of the listing\<close>
  "candidates ps sid =
     filter (\<lambda>f. startswith (stem f) sid \<and> \<not> startswith (stem f) ''agent-'')
       (concat (map jsonl_files (filter is_dir ps)))"










section \<open>More samples\<close>







section \<open>Verification of the resolver\<close>

lemma distinct_by_uuid_fold:
  "distinct (map fst d) \<Longrightarrow>
   distinct (map fst (fold (\<lambda>r d. if truthy (uuid r) then AList.update (get_str (uuid r)) r d else d) rs d))"
  by (induction rs arbitrary: d) (auto simp: distinct_update)

lemma distinct_by_uuid: "distinct (map fst (by_uuid_of rs))"
  unfolding by_uuid_of_def by (rule distinct_by_uuid_fold) simp

lemma parent_links_iff:
  "(u, p) \<in> parent_links rs \<longleftrightarrow>
   (\<exists>r. map_of (by_uuid_of rs) u = Some r \<and> truthy (parentUuid r) \<and> p = get_str (parentUuid r))"
proof -
  have "(u, p) \<in> parent_links rs \<longleftrightarrow>
        (\<exists>r. (u, r) \<in> set (by_uuid_of rs) \<and> truthy (parentUuid r) \<and> p = get_str (parentUuid r))"
    unfolding parent_links_def by force
  then show ?thesis
    using map_of_eq_Some_iff[OF distinct_by_uuid[of rs]] by simp
qed




subsection \<open>The last element of a stable sort\<close>



lemma sort_key_Nil_iff: "sort_key f xs = [] \<longleftrightarrow> xs = []"
  using length_sort[of f xs] by (metis length_0_conv)



subsection \<open>The id index, whatever the order of the records\<close>

lemma update_not_Nil: "AList.update k v d \<noteq> []"
  by (cases d) auto

lemma by_uuid_fold_Nil_iff:
  "fold (\<lambda>r d. if truthy (uuid r) then AList.update (get_str (uuid r)) r d else d) rs d = []
   \<longleftrightarrow> d = [] \<and> (\<forall>r\<in>set rs. \<not> truthy (uuid r))"
  by (induction rs arbitrary: d) (auto simp: update_not_Nil)

lemma by_uuid_Nil_iff: "by_uuid_of rs = [] \<longleftrightarrow> (\<forall>r\<in>set rs. \<not> truthy (uuid r))"
  unfolding by_uuid_of_def by (simp add: by_uuid_fold_Nil_iff)

lemma find_snoc:
  "find P (xs @ [x]) = (case find P xs of None \<Rightarrow> (if P x then Some x else None) | Some y \<Rightarrow> Some y)"
  by (induction xs) auto

lemma map_of_by_uuid_fold:
  "map_of (fold (\<lambda>r d. if truthy (uuid r) then AList.update (get_str (uuid r)) r d else d) rs d) u =
     (case find (\<lambda>r. truthy (uuid r) \<and> get_str (uuid r) = u) (rev rs) of
        None \<Rightarrow> map_of d u | Some r \<Rightarrow> Some r)"
  by (induction rs arbitrary: d) (auto simp: find_snoc update_conv' split: option.splits)

lemma map_of_by_uuid:
  "map_of (by_uuid_of rs) u = find (\<lambda>r. truthy (uuid r) \<and> get_str (uuid r) = u) (rev rs)"
  unfolding by_uuid_of_def by (simp add: map_of_by_uuid_fold split: option.splits)





lemma terminals_have_id: "t \<in> set (terminals_of rs) \<Longrightarrow> truthy (uuid t) \<and> t \<in> set rs"
  by (simp add: terminals_of_def)

lemma latest_terminal_mem:
  "terminals_of rs \<noteq> [] \<Longrightarrow> latest_terminal_of (terminals_of rs) \<in> set (terminals_of rs)"
  using last_in_set[of "sort_key timestamp_key (terminals_of rs)"]
  by (simp add: sort_key_Nil_iff latest_terminal_of_def)



lemma walk_back_chain:
  "parent_chain (parent_links rs) (c # us) \<Longrightarrow> truthy cur \<Longrightarrow> get_str cur = c \<Longrightarrow>
   walk_back (by_uuid_of rs) W cur =
   walk_back (by_uuid_of rs) (W \<union> set (butlast (c # us))) (Some (last (c # us)))"
proof (induction us arbitrary: c cur W)
  case Nil
  then have "cur = Some c" by (cases cur) (simp_all add: truthy_def get_str_def)
  then show ?case by simp
next
  case (Cons v us)
  from Cons.prems(1) obtain r where r: "map_of (by_uuid_of rs) c = Some r"
    "truthy (parentUuid r)" "v = get_str (parentUuid r)"
    by (auto simp: parent_links_iff)
  have "walk_back (by_uuid_of rs) W cur = walk_back (by_uuid_of rs) (insert c W) (parentUuid r)"
    using r Cons.prems by (subst walk_back.simps) simp
  also have "\<dots> = walk_back (by_uuid_of rs) (insert c W \<union> set (butlast (v # us)))
                    (Some (last (v # us)))"
    using Cons.prems(1) r by (intro Cons.IH) simp_all
  finally show ?case by simp
qed

lemma not_indexed:
  "map_of (by_uuid_of rs) p = None \<Longrightarrow> r \<in> set rs \<Longrightarrow> truthy (uuid r) \<Longrightarrow> get_str (uuid r) \<noteq> p"
  unfolding map_of_by_uuid by (auto simp: find_None_iff)

lemma terminals_Nil_iff:
  "terminals_of rs = [] \<longleftrightarrow>
   (\<forall>r\<in>set rs. truthy (uuid r) \<longrightarrow> get_str (uuid r) \<in> parent_uuids_of rs)"
  by (auto simp: terminals_of_def filter_empty_conv)



lemma retry_log_path: "find_winning_path retry_log = Some (Some {''r'', ''c2''})"
  by code_simp

lemma retry_log_path_rev: "find_winning_path (rev retry_log) = Some (Some {''r'', ''c2''})"
  by code_simp


text \<open>
  Claim C2. When no record has an id, or every id is the parent of some record, the resolver
  returns Python's \<^verbatim>\<open>None\<close>, and the caller keeps every record that has a message and
  is not meta.
\<close>

theorem no_path_keeps_all_messages:
  assumes "(\<forall>r\<in>set rs. \<not> truthy (uuid r)) \<or>
           (\<forall>r\<in>set rs. truthy (uuid r) \<longrightarrow> get_str (uuid r) \<in> parent_uuids_of rs)"
  shows "find_winning_path rs = Some None \<and>
         select_records rs = Some (filter (\<lambda>r. message r \<noteq> None \<and> \<not> isMeta r) rs)"
proof -
  have "by_uuid_of rs = [] \<or> terminals_of rs = []"
    using assms by (auto simp: by_uuid_Nil_iff terminals_Nil_iff)
  then have "find_winning_path rs = Some None"
    by (auto simp: find_winning_path_def Let_def)
  then show ?thesis
    by (simp add: select_records_def raw_records_of_def off_path_def)
qed

theorem no_path_keeps_all_messages_witness:
  "terminals_of cyclic_log = [] \<and>
   find_winning_path cyclic_log = Some None \<and>
   select_records cyclic_log = Some (take 2 cyclic_log)"
proof -
  have h: "\<forall>r\<in>set cyclic_log. truthy (uuid r) \<longrightarrow> get_str (uuid r) \<in> parent_uuids_of cyclic_log"
    by code_simp
  have f: "filter (\<lambda>r. message r \<noteq> None \<and> \<not> isMeta r) cyclic_log = take 2 cyclic_log"
    by code_simp
  have "find_winning_path cyclic_log = Some None \<and>
        select_records cyclic_log =
          Some (filter (\<lambda>r. message r \<noteq> None \<and> \<not> isMeta r) cyclic_log)"
    using h by (intro no_path_keeps_all_messages) blast
  moreover have "terminals_of cyclic_log = []" by code_simp
  ultimately show ?thesis
    unfolding f by blast
qed

text \<open>
  Claim C3. When the walk from the chosen terminal reaches a record whose declared parent
  \<open>p\<close> is not in the index, it stops: the resolver returns the ids of the records visited
  and \<open>p\<close> itself, and the records kept are those on the visited part of the path (and
  those without an id).
\<close>

theorem walk_stops_at_missing_parent:
  assumes "terminals_of rs \<noteq> []"
    and "parent_chain (parent_links rs) (visited @ [p])"
    and "visited \<noteq> []" and "hd visited = get_str (uuid (latest_terminal_of (terminals_of rs)))"
    and "map_of (by_uuid_of rs) p = None"
  shows "find_winning_path rs = Some (Some (set visited \<union> {p})) \<and>
         select_records rs =
           Some (filter (\<lambda>r. message r \<noteq> None \<and> \<not> isMeta r \<and>
                   (truthy (uuid r) \<longrightarrow> get_str (uuid r) \<in> set visited)) rs)"
proof -
  define t where "t = latest_terminal_of (terminals_of rs)"
  obtain us where v: "visited = get_str (uuid t) # us"
    using assms(3,4) by (cases visited) (simp_all add: t_def)
  have t: "truthy (uuid t)" "t \<in> set rs"
    using latest_terminal_mem[OF assms(1)] terminals_have_id[of t rs] by (simp_all add: t_def)
  then have ne: "by_uuid_of rs \<noteq> []" by (auto simp: by_uuid_Nil_iff)
  have chain: "parent_chain (parent_links rs) (get_str (uuid t) # (us @ [p]))"
    using assms(2) by (simp add: v)
  have "(last visited, p) \<in> parent_links rs"
    using assms(2,3) by (induction visited rule: parent_chain.induct[of _ "parent_links rs"]) auto
  then have p: "p \<noteq> []"
    by (auto simp: parent_links_iff truthy_def)
  have "walk_back (by_uuid_of rs) {} (uuid t) =
        walk_back (by_uuid_of rs) ({} \<union> set (butlast (get_str (uuid t) # (us @ [p]))))
          (Some (last (get_str (uuid t) # (us @ [p]))))"
    using chain t(1) by (rule walk_back_chain) simp
  also have "\<dots> = walk_back (by_uuid_of rs) (set visited) (Some p)"
    by (simp add: v butlast_append)
  also have "\<dots> = Some (insert p (set visited))"
    using assms(5) p by (subst walk_back.simps) (simp add: truthy_def get_str_def)
  finally have w: "find_winning_path rs = Some (Some (set visited \<union> {p}))"
    using ne assms(1) by (simp add: find_winning_path_def Let_def t_def)
  have "raw_records_of (Some (set visited \<union> {p})) rs =
        filter (\<lambda>r. message r \<noteq> None \<and> \<not> isMeta r \<and>
                   (truthy (uuid r) \<longrightarrow> get_str (uuid r) \<in> set visited)) rs"
    unfolding raw_records_of_def off_path_def
    using not_indexed[OF assms(5)] by (intro filter_cong) auto
  with w show ?thesis by (simp add: select_records_def)
qed

theorem walk_stops_at_missing_parent_witness:
  "terminals_of dangling_log \<noteq> [] \<and>
   parent_chain (parent_links dangling_log) ([''y'', ''x''] @ [''gone'']) \<and>
   hd [''y'', ''x''] = get_str (uuid (latest_terminal_of (terminals_of dangling_log))) \<and>
   map_of (by_uuid_of dangling_log) ''gone'' = None \<and>
   find_winning_path dangling_log = Some (Some {''y'', ''x'', ''gone''}) \<and>
   select_records dangling_log = Some [dangling_log ! 0, dangling_log ! 2]"
proof -
  have 1: "terminals_of dangling_log \<noteq> []" by code_simp
  have 2: "parent_chain (parent_links dangling_log) ([''y'', ''x''] @ [''gone''])" by code_simp
  have 3: "[''y'', ''x''] \<noteq> []" by simp
  have 4: "hd [''y'', ''x''] = get_str (uuid (latest_terminal_of (terminals_of dangling_log)))"
    by code_simp
  have 5: "map_of (by_uuid_of dangling_log) ''gone'' = None" by code_simp
  have f: "filter (\<lambda>r. message r \<noteq> None \<and> \<not> isMeta r \<and>
              (truthy (uuid r) \<longrightarrow> get_str (uuid r) \<in> set [''y'', ''x''])) dangling_log =
           [dangling_log ! 0, dangling_log ! 2]"
    by code_simp
  have s: "set [''y'', ''x''] \<union> {''gone''} = {''y'', ''x'', ''gone''}" by auto
  show ?thesis
    using 1 2 4 5 walk_stops_at_missing_parent[OF 1 2 3 4 5] unfolding f s by blast
qed

text \<open>
  Claim C10. The filter onto the winning path drops only records that carry an id: whatever
  the resolver returned, the records without an id that reach aggregation are all the
  records without an id that have a message and are not meta, in the order of the log.
\<close>

theorem records_without_id_pass:
  assumes "find_winning_path rs = Some w"
  shows "select_records rs = Some (raw_records_of w rs) \<and>
         filter (\<lambda>r. \<not> truthy (uuid r)) (raw_records_of w rs) =
         filter (\<lambda>r. \<not> truthy (uuid r) \<and> message r \<noteq> None \<and> \<not> isMeta r) rs"
proof -
  have "filter (\<lambda>r. \<not> truthy (uuid r)) (raw_records_of w rs) =
        filter (\<lambda>r. \<not> truthy (uuid r) \<and> message r \<noteq> None \<and> \<not> isMeta r) rs"
    unfolding raw_records_of_def off_path_def filter_filter
    by (intro filter_cong) (auto split: option.splits)
  with assms show ?thesis by (simp add: select_records_def)
qed

theorem records_without_id_pass_witness:
  "find_winning_path (dangling_log @ [no_id_record]) = Some (Some {''y'', ''x'', ''gone''}) \<and>
   select_records (dangling_log @ [no_id_record]) =
     Some [dangling_log ! 0, dangling_log ! 2, no_id_record] \<and>
   filter (\<lambda>r. \<not> truthy (uuid r)) [dangling_log ! 0, dangling_log ! 2, no_id_record] =
     [no_id_record]"
proof -
  have p: "find_winning_path (dangling_log @ [no_id_record]) = Some (Some {''y'', ''x'', ''gone''})"
    by code_simp
  have r: "raw_records_of (Some {''y'', ''x'', ''gone''}) (dangling_log @ [no_id_record]) =
           [dangling_log ! 0, dangling_log ! 2, no_id_record]"
    by code_simp
  have f: "filter (\<lambda>r. \<not> truthy (uuid r) \<and> message r \<noteq> None \<and> \<not> isMeta r)
             (dangling_log @ [no_id_record]) = [no_id_record]"
    by code_simp
  show ?thesis
    using p records_without_id_pass[OF p] unfolding r f by blast
qed

section \<open>Verification of the turn aggregator\<close>









section \<open>Verification of the loader\<close>




lemma session_log_timestamp:
  "last_timestamp (load_lines session_log) = Some ''2024-01-01'' \<and>
   project_path (load_lines session_log) = Some ''/work''"
  by code_simp

section \<open>Verification of the export target selection\<close>

lemma startswith_self: "startswith s s"
  by (simp add: startswith_def)

lemma find_matches_candidates: "find_matches ps sid = candidates ps sid"
  by (induction ps) (auto simp: find_matches_def candidates_def startswith_self intro: filter_cong)

lemma fold_print_line:
  "fold (\<lambda>m. print_line (f m)) ms w = w\<lparr>printed := printed w @ map f ms\<rparr>"
  by (induction ms arbitrary: w) (simp_all add: print_line_def)

text \<open>
  Claim C8. The logs an identifier matches are those whose id it is a prefix of (an exact
  match is the prefix that is the whole id). With no match the export prints that the
  conversation was not found; with more than one it prints the ambiguity with every
  candidate; in both cases it returns with nothing written. With exactly one match it goes
  on with that log.
\<close>

theorem export_target_selection:
  "find_matches (projects w) sid = candidates (projects w) sid \<and>
   (candidates (projects w) sid = [] \<longrightarrow>
      export_conversation e sid output_path w =
        Some (Inr (w\<lparr>printed := printed w @ [''Conversation '' @ sid @ '' not found'']\<rparr>))) \<and>
   (length (candidates (projects w) sid) > 1 \<longrightarrow>
      export_conversation e sid output_path w =
        Some (Inr (w\<lparr>printed := printed w @
          [''Ambiguous prefix '' @ [CHR 0x27] @ sid @ [CHR 0x27] @ '', matches '' @
             str_of_nat (length (candidates (projects w) sid)) @ '' conversations:''] @
          map (\<lambda>m. ''  '' @ stem m) (candidates (projects w) sid) @
          [[newline] @ ''Use a longer prefix to narrow it down.'']\<rparr>))) \<and>
   (\<forall>f. candidates (projects w) sid = [f] \<longrightarrow>
      export_conversation e sid output_path w = export_selected e sid output_path f w)"
proof (intro conjI impI allI)
  show "find_matches (projects w) sid = candidates (projects w) sid"
    by (rule find_matches_candidates)
next
  assume "candidates (projects w) sid = []"
  then show "export_conversation e sid output_path w =
        Some (Inr (w\<lparr>printed := printed w @ [''Conversation '' @ sid @ '' not found'']\<rparr>))"
    by (simp add: export_conversation_def find_matches_candidates print_line_def)
next
  assume "length (candidates (projects w) sid) > 1"
  then show "export_conversation e sid output_path w =
        Some (Inr (w\<lparr>printed := printed w @
          [''Ambiguous prefix '' @ [CHR 0x27] @ sid @ [CHR 0x27] @ '', matches '' @
             str_of_nat (length (candidates (projects w) sid)) @ '' conversations:''] @
          map (\<lambda>m. ''  '' @ stem m) (candidates (projects w) sid) @
          [[newline] @ ''Use a longer prefix to narrow it down.'']\<rparr>))"
    unfolding export_conversation_def find_matches_candidates Let_def fold_print_line
    by (auto simp: print_line_def)
next
  fix f assume "candidates (projects w) sid = [f]"
  then show "export_conversation e sid output_path w = export_selected e sid output_path f w"
    by (simp add: export_conversation_def find_matches_candidates)
qed

lemma sample_candidates:
  "candidates (projects sample_world) ''zz'' = []"
  "candidates (projects sample_world) ''ab'' =
     [question_file ''ok'', (question_file ''ok'')\<lparr>stem := ''abd''\<rparr>]"
  "candidates (projects sample_world) ''abc'' = [question_file ''ok'']"
  by code_simp+

theorem export_target_selection_witness:
  "candidates (projects sample_world) ''zz'' = [] \<and>
   export_conversation sample_env ''zz'' None sample_world =
     Some (Inr (sample_world\<lparr>printed := [''Conversation zz not found'']\<rparr>)) \<and>
   length (candidates (projects sample_world) ''ab'') > 1 \<and>
   export_conversation sample_env ''ab'' None sample_world =
     Some (Inr (sample_world\<lparr>printed :=
       [''Ambiguous prefix '' @ [CHR 0x27] @ ''ab'' @ [CHR 0x27] @ '', matches 2 conversations:'',
        ''  abc'', ''  abd'', [newline] @ ''Use a longer prefix to narrow it down.'']\<rparr>)) \<and>
   candidates (projects sample_world) ''abc'' = [question_file ''ok''] \<and>
   export_conversation sample_env ''abc'' None sample_world =
     export_selected sample_env ''abc'' None (question_file ''ok'') sample_world"
proof -
  have p: "printed sample_world = []" by (simp add: sample_world_def)
  have n: "str_of_nat (Suc (Suc 0)) = ''2''" by code_simp
  have s: "stem (question_file ''ok'') = ''abc''" by (simp add: question_file_def)
  show ?thesis
    using export_target_selection[of sample_world "''zz''" sample_env None]
      export_target_selection[of sample_world "''ab''" sample_env None]
      export_target_selection[of sample_world "''abc''" sample_env None]
    by (simp add: sample_candidates p n s)
qed

section \<open>Verification of the enrichment of Write invocations\<close>

lemma add_annotation_write_contents [simp]:
  "write_contents (add_annotation ann s) = write_contents s"
  by (simp add: add_annotation_def)

lemma add_question_write_contents [simp]:
  "write_contents (add_question answers p s) = write_contents s"
  by (simp add: add_question_def)

lemma add_question_tool_annotations [simp]:
  "tool_annotations (add_question answers p s) = tool_annotations s"
  by (simp add: add_question_def)

lemma add_write_tool_annotations [simp]:
  "tool_annotations (add_write p s) = tool_annotations s"
  by (simp add: add_write_def Let_def)



section \<open>Verification of the renderer\<close>














section \<open>Verification of the question and answer blocks\<close>


















end
